theory Spec2Isabelle
  imports Main "HOL-Library.Word"
begin

unbundle bit_operations_syntax

section \<open>The Bluetooth value types TimeularManager works with\<close>

text \<open>
  The manager is a QObject whose slots run one at a time on the event loop. Each slot is
  embedded as a function on the record of the member variables of
  \<^verbatim>\<open>timeularmanager.h\<close>. Calls into the Bluetooth objects and emitted signals are
  appended, in program order, to a trace that is part of the record, so that "nothing
  happened" is the equation \<open>slot s = s\<close>.
\<close>

type_synonym QBluetoothUuid = string
type_synonym quint8 = "8 word"
type_synonym QByteArray = "quint8 list"

definition zeiOrientationService :: QBluetoothUuid where
  "zeiOrientationService = ''c7e70010-c847-11e6-8175-8c89a55d403c''"

definition zeiOrientationCharacteristic :: QBluetoothUuid where
  "zeiOrientationCharacteristic = ''c7e70012-c847-11e6-8175-8c89a55d403c''"

text \<open>The UUID literal of \<^verbatim>\<open>serviceStateChanged\<close> (client characteristic configuration).\<close>

definition notificationDescriptorUuid :: QBluetoothUuid where
  "notificationDescriptorUuid = ''00002902-0000-1000-8000-00805f9b34fb''"

text \<open>A default-constructed QBluetoothUuid, which is what an invalid characteristic reports.\<close>

definition nullUuid :: QBluetoothUuid where
  "nullUuid = ''00000000-0000-0000-0000-000000000000''"

datatype Status = Disconneted | Connecting | Connected

datatype Orientation =
  Vertical | Face1 | Face2 | Face3 | Face4 | Face5 | Face6 | Face7 | Face8

text \<open>The enumerators count from zero in declaration order.\<close>

fun Orientation_value :: "Orientation \<Rightarrow> nat" where
  "Orientation_value Vertical = 0"
| "Orientation_value Face1 = 1"
| "Orientation_value Face2 = 2"
| "Orientation_value Face3 = 3"
| "Orientation_value Face4 = 4"
| "Orientation_value Face5 = 5"
| "Orientation_value Face6 = 6"
| "Orientation_value Face7 = 7"
| "Orientation_value Face8 = 8"

text \<open>
  \<^verbatim>\<open>static_cast<Orientation>(orientation)\<close>: a byte that is the value of an enumerator
  yields that enumerator; any other byte names no enumerator.
\<close>

definition static_cast_Orientation :: "quint8 \<Rightarrow> Orientation option" where
  "static_cast_Orientation b =
     (if b = 0 then Some Vertical
      else if b = 1 then Some Face1
      else if b = 2 then Some Face2
      else if b = 3 then Some Face3
      else if b = 4 then Some Face4
      else if b = 5 then Some Face5
      else if b = 6 then Some Face6
      else if b = 7 then Some Face7
      else if b = 8 then Some Face8
      else None)"

subsection \<open>\<^verbatim>\<open>QByteArray::fromHex\<close>\<close>

definition hexDigit :: "char \<Rightarrow> quint8 option" where
  "hexDigit c =
     (let n = (of_char c :: nat) in
      if 48 \<le> n \<and> n \<le> 57 then Some (of_nat (n - 48))
      else if 97 \<le> n \<and> n \<le> 102 then Some (of_nat (n - 87))
      else if 65 \<le> n \<and> n \<le> 70 then Some (of_nat (n - 55))
      else None)"

text \<open>
  Qt walks the text from its last character to its first, skips what is no hexadecimal
  digit, and fills each byte low nibble first.
\<close>

fun fromHex_back :: "char list \<Rightarrow> quint8 option \<Rightarrow> QByteArray \<Rightarrow> QByteArray" where
  "fromHex_back [] None acc = acc"
| "fromHex_back [] (Some lo) acc = lo # acc"
| "fromHex_back (c # cs) pending acc =
     (case hexDigit c of
        None \<Rightarrow> fromHex_back cs pending acc
      | Some v \<Rightarrow>
          (case pending of
             None \<Rightarrow> fromHex_back cs (Some v) acc
           | Some lo \<Rightarrow> fromHex_back cs None ((lo OR push_bit 4 v) # acc)))"

definition fromHex :: "string \<Rightarrow> QByteArray" where
  "fromHex hexEncoded = fromHex_back (rev hexEncoded) None []"

subsection \<open>Device information, descriptors, characteristics, services\<close>

record QBluetoothDeviceInfo =
  info_name :: string
  info_address :: string
  info_coreConfigurations :: quint8

definition LowEnergyCoreConfiguration :: quint8 where
  "LowEnergyCoreConfiguration = 1"

text \<open>
  A descriptor is a value object: either invalid (default constructed) or a handle into
  the attribute table of a service together with its type.
\<close>

datatype QLowEnergyDescriptor =
  InvalidDescriptor
| Descriptor nat nat QBluetoothUuid

fun descriptor_isValid :: "QLowEnergyDescriptor \<Rightarrow> bool" where
  "descriptor_isValid InvalidDescriptor = False"
| "descriptor_isValid (Descriptor charHandle descHandle u) = True"

fun descriptor_uuid :: "QLowEnergyDescriptor \<Rightarrow> QBluetoothUuid" where
  "descriptor_uuid InvalidDescriptor = nullUuid"
| "descriptor_uuid (Descriptor charHandle descHandle u) = u"

text \<open>\<^verbatim>\<open>operator==\<close> of descriptors: two invalid ones are equal, valid ones compare handles.\<close>

fun descriptor_eq :: "QLowEnergyDescriptor \<Rightarrow> QLowEnergyDescriptor \<Rightarrow> bool" where
  "descriptor_eq InvalidDescriptor InvalidDescriptor = True"
| "descriptor_eq (Descriptor c1 d1 u1) (Descriptor c2 d2 u2) = (c1 = c2 \<and> d1 = d2)"
| "descriptor_eq InvalidDescriptor (Descriptor c2 d2 u2) = False"
| "descriptor_eq (Descriptor c1 d1 u1) InvalidDescriptor = False"

datatype QLowEnergyCharacteristic =
  InvalidCharacteristic
| Characteristic nat QBluetoothUuid "QLowEnergyDescriptor list"

fun characteristic_isValid :: "QLowEnergyCharacteristic \<Rightarrow> bool" where
  "characteristic_isValid InvalidCharacteristic = False"
| "characteristic_isValid (Characteristic h u ds) = True"

fun characteristic_uuid :: "QLowEnergyCharacteristic \<Rightarrow> QBluetoothUuid" where
  "characteristic_uuid InvalidCharacteristic = nullUuid"
| "characteristic_uuid (Characteristic h u ds) = u"

fun find_descriptor :: "QLowEnergyDescriptor list \<Rightarrow> QBluetoothUuid \<Rightarrow> QLowEnergyDescriptor" where
  "find_descriptor [] u = InvalidDescriptor"
| "find_descriptor (d # ds) u =
     (if descriptor_isValid d \<and> descriptor_uuid d = u then d else find_descriptor ds u)"

text \<open>\<^verbatim>\<open>QLowEnergyCharacteristic::descriptor(uuid)\<close>: invalid when there is none of that type.\<close>

fun characteristic_descriptor ::
  "QLowEnergyCharacteristic \<Rightarrow> QBluetoothUuid \<Rightarrow> QLowEnergyDescriptor" where
  "characteristic_descriptor InvalidCharacteristic u = InvalidDescriptor"
| "characteristic_descriptor (Characteristic h cu ds) u = find_descriptor ds u"

record QLowEnergyService =
  service_uuid :: QBluetoothUuid
  service_characteristics :: "QLowEnergyCharacteristic list"

fun find_characteristic ::
  "QLowEnergyCharacteristic list \<Rightarrow> QBluetoothUuid \<Rightarrow> QLowEnergyCharacteristic" where
  "find_characteristic [] u = InvalidCharacteristic"
| "find_characteristic (c # cs) u =
     (if characteristic_isValid c \<and> characteristic_uuid c = u then c
      else find_characteristic cs u)"

text \<open>\<^verbatim>\<open>QLowEnergyService::characteristic(uuid)\<close>: invalid when the service has none.\<close>

definition service_characteristic ::
  "QLowEnergyService \<Rightarrow> QBluetoothUuid \<Rightarrow> QLowEnergyCharacteristic" where
  "service_characteristic svc u = find_characteristic (service_characteristics svc) u"

datatype ServiceState =
  InvalidService | DiscoveryRequired | DiscoveringServices | ServiceDiscovered | LocalService

datatype RemoteAddressType = PublicAddress | RandomAddress

record QLowEnergyController =
  ctl_remoteDevice :: QBluetoothDeviceInfo
  ctl_remoteAddressType :: RemoteAddressType
  ctl_errorString :: string

text \<open>\<^verbatim>\<open>QLowEnergyController::createCentral(info, this)\<close>: public address type, no error yet.\<close>

definition createCentral :: "QBluetoothDeviceInfo \<Rightarrow> QLowEnergyController" where
  "createCentral info =
     \<lparr>ctl_remoteDevice = info, ctl_remoteAddressType = PublicAddress, ctl_errorString = []\<rparr>"

section \<open>The manager\<close>

text \<open>What a slot does to the outside: signals it emits, calls it makes, lines it logs.\<close>

datatype effect =
  Emit_statusChanged Status
| Emit_orientationChanged Orientation
| Debug string
| Debug_Orientation quint8
| Warning string string
| Agent_start_LowEnergyMethod
| Controller_created QBluetoothDeviceInfo
| Controller_signals_connected
| Controller_connectToDevice
| Controller_disconnectFromDevice
| Controller_discoverServices
| Controller_createServiceObject QBluetoothUuid
| Service_signals_connected
| Service_discoverDetails
| Service_writeDescriptor QLowEnergyDescriptor QByteArray
| Service_deleted

text \<open>
  What stops a slot: a call through a null pointer, a cast to \<open>Orientation\<close> of a
  value that is no enumerator.
\<close>

datatype fault =
  NullPointerDereference
| NotAnEnumerator

record TimeularManager =
  m_status :: Status
  m_serviceDiscovered :: bool
  m_lowEnergyDiscoveryTimeout :: nat
  m_service :: "QLowEnergyService option"
  m_controller :: "QLowEnergyController option"
  m_notificationDesc :: QLowEnergyDescriptor
  m_orientation :: Orientation
  trace :: "effect list"

text \<open>
  The constructor and the in-class initialisers: the discovery agent exists with its
  timeout of 5000 ms, every pointer is null, the descriptor is default constructed.
\<close>

definition TimeularManager_init :: TimeularManager where
  "TimeularManager_init =
     \<lparr>m_status = Disconneted,
      m_serviceDiscovered = False,
      m_lowEnergyDiscoveryTimeout = 5000,
      m_service = None,
      m_controller = None,
      m_notificationDesc = InvalidDescriptor,
      m_orientation = Vertical,
      trace = []\<rparr>"

definition emit :: "effect list \<Rightarrow> TimeularManager \<Rightarrow> TimeularManager" where
  "emit es s = s\<lparr>trace := trace s @ es\<rparr>"

text \<open>\<^verbatim>\<open>delete m_service; m_service = nullptr;\<close> (deleting a null pointer does nothing).\<close>

definition delete_service :: "TimeularManager \<Rightarrow> TimeularManager" where
  "delete_service s =
     (case m_service s of
        None \<Rightarrow> s\<lparr>m_service := None\<rparr>
      | Some svc \<Rightarrow> emit [Service_deleted] (s\<lparr>m_service := None\<rparr>))"

definition setStatus :: "Status \<Rightarrow> TimeularManager \<Rightarrow> TimeularManager" where
  "setStatus status s =
     (if status \<noteq> m_status s
      then emit [Emit_statusChanged status] (s\<lparr>m_status := status\<rparr>)
      else s)"

definition startDiscovery :: "TimeularManager \<Rightarrow> TimeularManager" where
  "startDiscovery s =
     (if m_status s \<noteq> Disconneted then s
      else emit [Agent_start_LowEnergyMethod]
             (setStatus Connecting (emit [Debug ''Starting Discovery''] s)))"

text \<open>The lambda connected to the agent's \<^verbatim>\<open>finished\<close> signal in the constructor.\<close>

definition discoveryFinished :: "TimeularManager \<Rightarrow> TimeularManager" where
  "discoveryFinished s = (if m_service s = None then startDiscovery s else s)"

definition deviceDiscovered :: "QBluetoothDeviceInfo \<Rightarrow> TimeularManager \<Rightarrow> TimeularManager" where
  "deviceDiscovered info s =
     (if m_status s \<noteq> Connecting then s
      else if \<not> (info_coreConfigurations info AND LowEnergyCoreConfiguration \<noteq> 0) then s
      else if info_name info = ''Timeular ZEI'' then
        (let s1 = emit [Debug ''Connecting to device''] s;
             s2 = (case m_controller s1 of
                     None \<Rightarrow>
                       emit [Controller_created info, Controller_signals_connected]
                         (s1\<lparr>m_controller :=
                               Some ((createCentral info)\<lparr>ctl_remoteAddressType := RandomAddress\<rparr>)\<rparr>)
                   | Some c \<Rightarrow> s1)
         in emit [Controller_connectToDevice] s2)
      else s)"

definition deviceConnected :: "TimeularManager \<Rightarrow> fault + TimeularManager" where
  "deviceConnected s =
     (case m_controller s of
        None \<Rightarrow> Inl NullPointerDereference
      | Some c \<Rightarrow> Inr (emit [Controller_discoverServices] s))"

definition deviceDisconnected :: "TimeularManager \<Rightarrow> TimeularManager" where
  "deviceDisconnected s =
     emit [Debug ''Device Disconneted''] (delete_service (setStatus Disconneted s))"

definition errorReceived :: "TimeularManager \<Rightarrow> fault + TimeularManager" where
  "errorReceived s =
     (case m_controller s of
        None \<Rightarrow> Inl NullPointerDereference
      | Some c \<Rightarrow> Inr (emit [Warning ''Error: '' (ctl_errorString c)] s))"

text \<open>
  \<^verbatim>\<open>serviceScanDone\<close>. What \<^verbatim>\<open>createServiceObject\<close> answers depends on the remote
  device, so the answer is the argument \<open>created\<close>: the service object, or \<open>None\<close> for
  the null pointer the controller returns for a service it has not seen.
\<close>

definition serviceScanDone ::
  "QLowEnergyService option \<Rightarrow> TimeularManager \<Rightarrow> fault + TimeularManager" where
  "serviceScanDone created s =
     (let s1 = (if m_service s \<noteq> None then delete_service s else s) in
      case (if m_serviceDiscovered s1
            then (case m_controller s1 of
                    None \<Rightarrow> Inl NullPointerDereference
                  | Some c \<Rightarrow>
                      Inr (emit [Controller_createServiceObject zeiOrientationService]
                             (s1\<lparr>m_service := created\<rparr>)))
            else Inr s1) of
        Inl f \<Rightarrow> Inl f
      | Inr s2 \<Rightarrow>
          (if m_service s2 \<noteq> None
           then Inr (emit [Service_signals_connected, Service_discoverDetails] s2)
           else Inr (emit [Debug ''Service not found''] s2)))"

definition confirmedDescriptorWrite ::
  "QLowEnergyDescriptor \<Rightarrow> QByteArray \<Rightarrow> TimeularManager \<Rightarrow> fault + TimeularManager" where
  "confirmedDescriptorWrite d val s =
     (if descriptor_isValid d \<and> descriptor_eq d (m_notificationDesc s) \<and> val = fromHex ''0000''
      then (case m_controller s of
              None \<Rightarrow> Inl NullPointerDereference
            | Some c \<Rightarrow> Inr (delete_service (emit [Controller_disconnectFromDevice] s)))
      else Inr s)"

definition addLowEnergyService :: "QBluetoothUuid \<Rightarrow> TimeularManager \<Rightarrow> TimeularManager" where
  "addLowEnergyService serviceUuid s =
     (if serviceUuid = zeiOrientationService then s\<lparr>m_serviceDiscovered := True\<rparr> else s)"

definition serviceStateChanged :: "ServiceState \<Rightarrow> TimeularManager \<Rightarrow> fault + TimeularManager" where
  "serviceStateChanged newState s =
     (case newState of
        DiscoveringServices \<Rightarrow> Inr s
      | ServiceDiscovered \<Rightarrow>
          (case m_service s of
             None \<Rightarrow> Inl NullPointerDereference
           | Some svc \<Rightarrow>
               (let orientationChar = service_characteristic svc zeiOrientationCharacteristic in
                if \<not> characteristic_isValid orientationChar
                then Inr (setStatus Disconneted (emit [Debug ''Orientation data not found''] s))
                else
                  (let s1 = s\<lparr>m_notificationDesc :=
                               characteristic_descriptor orientationChar notificationDescriptorUuid\<rparr>
                   in if descriptor_isValid (m_notificationDesc s1)
                      then Inr (emit [Service_writeDescriptor (m_notificationDesc s1) (fromHex ''0100'')]
                                  (setStatus Connected (emit [Debug ''Device Connected''] s1)))
                      else Inr (setStatus Disconneted s1))))
      | _ \<Rightarrow> Inr s)"

text \<open>
  \<^verbatim>\<open>*reinterpret_cast<const quint8 *>(value.constData())\<close>: the byte at index 0 of the
  array's data. Qt keeps the data of every QByteArray followed by a terminating NUL, so
  for an array of no bytes the byte read is that NUL.
\<close>

fun constData_deref :: "QByteArray \<Rightarrow> quint8" where
  "constData_deref [] = 0"
| "constData_deref (data0 # rest) = data0"

text \<open>
  \<^verbatim>\<open>deviceDataChanged\<close>. The slot reads the first byte without looking at the size of
  the array, then logs it, clamps it and compares it with the stored orientation.
\<close>

definition deviceDataChanged ::
  "QLowEnergyCharacteristic \<Rightarrow> QByteArray \<Rightarrow> TimeularManager \<Rightarrow> fault + TimeularManager" where
  "deviceDataChanged c val s =
     (if characteristic_uuid c \<noteq> zeiOrientationCharacteristic then Inr s
      else
        (let data0 = constData_deref val;
             s1 = emit [Debug_Orientation data0] s;
             orientation = (if data0 > 8 then 0 else data0)
         in if unat orientation \<noteq> Orientation_value (m_orientation s1)
            then (case static_cast_Orientation orientation of
                    None \<Rightarrow> Inl NotAnEnumerator
                  | Some e \<Rightarrow>
                      Inr (emit [Emit_orientationChanged e] (s1\<lparr>m_orientation := e\<rparr>)))
            else Inr s1))"

section \<open>The event loop\<close>

datatype event =
  StartDiscovery
| DiscoveryFinished
| DeviceDiscovered QBluetoothDeviceInfo
| DeviceConnected
| DeviceDisconnected
| ErrorReceived
| AddLowEnergyService QBluetoothUuid
| ServiceScanDone "QLowEnergyService option"
| ConfirmedDescriptorWrite QLowEnergyDescriptor QByteArray
| ServiceStateChanged ServiceState
| DeviceDataChanged QLowEnergyCharacteristic QByteArray

fun dispatch :: "event \<Rightarrow> TimeularManager \<Rightarrow> fault + TimeularManager" where
  "dispatch StartDiscovery s = Inr (startDiscovery s)"
| "dispatch DiscoveryFinished s = Inr (discoveryFinished s)"
| "dispatch (DeviceDiscovered info) s = Inr (deviceDiscovered info s)"
| "dispatch DeviceConnected s = deviceConnected s"
| "dispatch DeviceDisconnected s = Inr (deviceDisconnected s)"
| "dispatch ErrorReceived s = errorReceived s"
| "dispatch (AddLowEnergyService u) s = Inr (addLowEnergyService u s)"
| "dispatch (ServiceScanDone created) s = serviceScanDone created s"
| "dispatch (ConfirmedDescriptorWrite d val) s = confirmedDescriptorWrite d val s"
| "dispatch (ServiceStateChanged st) s = serviceStateChanged st s"
| "dispatch (DeviceDataChanged c val) s = deviceDataChanged c val s"

text \<open>Events are delivered one after the other; a fault ends the run.\<close>

fun run :: "event list \<Rightarrow> TimeularManager \<Rightarrow> fault + TimeularManager" where
  "run [] s = Inr s"
| "run (e # es) s = (case dispatch e s of Inl f \<Rightarrow> Inl f | Inr s' \<Rightarrow> run es s')"

text \<open>What a slot added to the trace, given the manager before and after it.\<close>

definition new_effects :: "TimeularManager \<Rightarrow> TimeularManager \<Rightarrow> effect list" where
  "new_effects s s' = drop (length (trace s)) (trace s')"

text \<open>A notification source used in the examples: the orientation characteristic.\<close>

definition orientationCharacteristic :: QLowEnergyCharacteristic where
  "orientationCharacteristic =
     Characteristic 13 zeiOrientationCharacteristic
       [Descriptor 13 14 notificationDescriptorUuid]"

text \<open>A dice as it advertises itself, and another low-energy device.\<close>

definition zeiDevice :: QBluetoothDeviceInfo where
  "zeiDevice = \<lparr>info_name = ''Timeular ZEI'', info_address = ''EA:0B:5C:11:22:33'',
                 info_coreConfigurations = 1\<rparr>"

definition otherDice :: QBluetoothDeviceInfo where
  "otherDice = \<lparr>info_name = ''Other Dice'', info_address = ''C0:FF:EE:00:00:01'',
                 info_coreConfigurations = 1\<rparr>"

definition orientationService :: QLowEnergyService where
  "orientationService =
     \<lparr>service_uuid = zeiOrientationService, service_characteristics = [orientationCharacteristic]\<rparr>"

text \<open>A manager that streams: controller and service held, notifications enabled.\<close>

definition connectedManager :: TimeularManager where
  "connectedManager =
     \<lparr>m_status = Connected,
      m_serviceDiscovered = True,
      m_lowEnergyDiscoveryTimeout = 5000,
      m_service = Some orientationService,
      m_controller = Some ((createCentral zeiDevice)\<lparr>ctl_remoteAddressType := RandomAddress\<rparr>),
      m_notificationDesc = Descriptor 13 14 notificationDescriptorUuid,
      m_orientation = Vertical,
      trace = []\<rparr>"

text \<open>
  Without a controller there is no service and no valid notification descriptor: both
  are only ever obtained through the controller.
\<close>

definition handles_consistent :: "TimeularManager \<Rightarrow> bool" where
  "handles_consistent s =
     (if m_controller s = None
      then m_service s = None \<and> \<not> descriptor_isValid (m_notificationDesc s)
      else True)"

section \<open>Helper facts\<close>

lemma fromHex_0000: "fromHex ''0000'' = [0, 0]"
  by (simp add: fromHex_def hexDigit_def)

lemma fromHex_0100: "fromHex ''0100'' = [1, 0]"
  by (simp add: fromHex_def hexDigit_def)


lemma Orientation_value_inj: "Orientation_value a = Orientation_value b \<longleftrightarrow> a = b"
  by (cases a; cases b; simp)

lemma static_cast_Orientation_in_range:
  assumes "b \<le> 8"
  shows "\<exists>e. static_cast_Orientation b = Some e \<and> Orientation_value e = unat b"
proof -
  have rep: "b = of_nat (unat b)" by simp
  from assms have "unat b \<le> 8" by (simp add: word_le_nat_alt)
  then consider "unat b = 0" | "unat b = 1" | "unat b = 2" | "unat b = 3" | "unat b = 4"
    | "unat b = 5" | "unat b = 6" | "unat b = 7" | "unat b = 8"
    by linarith
  then show ?thesis
  proof cases
    case 1
    with rep have "b = 0" by simp
    then show ?thesis by (simp add: static_cast_Orientation_def)
  next
    case 2
    with rep have "b = 1" by simp
    then show ?thesis by (simp add: static_cast_Orientation_def)
  next
    case 3
    with rep have "b = 2" by simp
    then show ?thesis by (simp add: static_cast_Orientation_def)
  next
    case 4
    with rep have "b = 3" by simp
    then show ?thesis by (simp add: static_cast_Orientation_def)
  next
    case 5
    with rep have "b = 4" by simp
    then show ?thesis by (simp add: static_cast_Orientation_def)
  next
    case 6
    with rep have "b = 5" by simp
    then show ?thesis by (simp add: static_cast_Orientation_def)
  next
    case 7
    with rep have "b = 6" by simp
    then show ?thesis by (simp add: static_cast_Orientation_def)
  next
    case 8
    with rep have "b = 7" by simp
    then show ?thesis by (simp add: static_cast_Orientation_def)
  next
    case 9
    with rep have "b = 8" by simp
    then show ?thesis by (simp add: static_cast_Orientation_def)
  qed
qed

lemma unat_clamp:
  "unat (if (b::quint8) > 8 then 0 else b) = (if unat b \<le> 8 then unat b else 0)"
  by (auto simp: word_less_nat_alt word_le_nat_alt not_less)

lemma orientationCharacteristic_uuid:
  "characteristic_uuid orientationCharacteristic = zeiOrientationCharacteristic"
  by (simp add: orientationCharacteristic_def)

lemma dispatch_flag:
  assumes "dispatch e s = Inr s'"
  shows "m_serviceDiscovered s' =
           (m_serviceDiscovered s \<or> e = AddLowEnergyService zeiOrientationService)"
proof (cases e)
  case StartDiscovery
  with assms show ?thesis
    by (auto simp: startDiscovery_def setStatus_def emit_def split: if_splits)
next
  case DiscoveryFinished
  with assms show ?thesis
    by (auto simp: discoveryFinished_def startDiscovery_def setStatus_def emit_def
             split: if_splits)
next
  case (DeviceDiscovered info)
  with assms show ?thesis
    by (auto simp: deviceDiscovered_def Let_def emit_def split: option.splits if_splits)
next
  case DeviceConnected
  with assms show ?thesis by (auto simp: deviceConnected_def emit_def split: option.splits)
next
  case DeviceDisconnected
  with assms show ?thesis
    by (auto simp: deviceDisconnected_def setStatus_def delete_service_def emit_def
             split: option.splits if_splits)
next
  case ErrorReceived
  with assms show ?thesis by (auto simp: errorReceived_def emit_def split: option.splits)
next
  case (AddLowEnergyService u)
  with assms show ?thesis by (auto simp: addLowEnergyService_def split: if_splits)
next
  case (ServiceScanDone created)
  with assms show ?thesis
    by (auto simp: serviceScanDone_def Let_def delete_service_def emit_def
             split: option.splits if_splits)
next
  case (ConfirmedDescriptorWrite d val)
  with assms show ?thesis
    by (auto simp: confirmedDescriptorWrite_def delete_service_def emit_def
             split: option.splits if_splits)
next
  case (ServiceStateChanged st)
  with assms show ?thesis
    by (cases st)
       (auto simp: serviceStateChanged_def Let_def setStatus_def emit_def
             split: option.splits if_splits)
next
  case (DeviceDataChanged c val)
  with assms show ?thesis
    by (auto simp: deviceDataChanged_def Let_def emit_def
             split: option.splits if_splits list.splits)
qed

lemma run_keeps_flag:
  "m_serviceDiscovered s \<Longrightarrow> run es s = Inr s' \<Longrightarrow> m_serviceDiscovered s'"
proof (induction es arbitrary: s)
  case Nil
  then show ?case by simp
next
  case (Cons e es)
  from Cons.prems(2) obtain s1 where s1: "dispatch e s = Inr s1" "run es s1 = Inr s'"
    by (auto split: sum.splits)
  from dispatch_flag [OF s1(1)] Cons.prems(1) have "m_serviceDiscovered s1" by simp
  with s1(2) show ?case using Cons.IH by blast
qed

lemma serviceScanDone_with_flag:
  assumes "m_serviceDiscovered s" "m_controller s = Some c"
  shows "\<exists>s'. serviceScanDone created s = Inr s' \<and> m_service s' = created \<and>
           new_effects s s' =
             (if m_service s = None then [] else [Service_deleted]) @
             Controller_createServiceObject zeiOrientationService #
             (if created = None then [Debug ''Service not found'']
              else [Service_signals_connected, Service_discoverDetails])"
  using assms
  by (auto simp: serviceScanDone_def Let_def delete_service_def emit_def new_effects_def
           split: option.splits)

section \<open>Session handles in reachable states\<close>

text \<open>
  From a new manager, every run of events that returns ends in a state whose handles are
  consistent; there the confirmation of a descriptor write never goes through a null
  controller.
\<close>

lemma dispatch_handles_consistent:
  assumes "handles_consistent s" "dispatch e s = Inr s'"
  shows "handles_consistent s'"
proof (cases e)
  case StartDiscovery
  with assms show ?thesis
    by (auto simp: handles_consistent_def startDiscovery_def setStatus_def emit_def
             split: if_splits)
next
  case DiscoveryFinished
  with assms show ?thesis
    by (auto simp: handles_consistent_def discoveryFinished_def startDiscovery_def
                   setStatus_def emit_def split: if_splits)
next
  case (DeviceDiscovered info)
  with assms show ?thesis
    by (auto simp: handles_consistent_def deviceDiscovered_def Let_def emit_def
             split: option.splits if_splits)
next
  case DeviceConnected
  with assms show ?thesis
    by (auto simp: handles_consistent_def deviceConnected_def emit_def split: option.splits)
next
  case DeviceDisconnected
  with assms show ?thesis
    by (auto simp: handles_consistent_def deviceDisconnected_def setStatus_def
                   delete_service_def emit_def split: option.splits if_splits)
next
  case ErrorReceived
  with assms show ?thesis
    by (auto simp: handles_consistent_def errorReceived_def emit_def split: option.splits)
next
  case (AddLowEnergyService u)
  with assms show ?thesis
    by (auto simp: handles_consistent_def addLowEnergyService_def split: if_splits)
next
  case (ServiceScanDone created)
  with assms show ?thesis
    by (auto simp: handles_consistent_def serviceScanDone_def Let_def delete_service_def
                   emit_def split: option.splits if_splits)
next
  case (ConfirmedDescriptorWrite d val)
  with assms show ?thesis
    by (auto simp: handles_consistent_def confirmedDescriptorWrite_def delete_service_def
                   emit_def split: option.splits if_splits)
next
  case (ServiceStateChanged st)
  with assms show ?thesis
    by (cases st)
       (auto simp: handles_consistent_def serviceStateChanged_def Let_def setStatus_def
                   emit_def split: option.splits if_splits)
next
  case (DeviceDataChanged c val)
  with assms show ?thesis
    by (auto simp: handles_consistent_def deviceDataChanged_def Let_def emit_def
             split: option.splits if_splits list.splits)
qed

lemma run_handles_consistent:
  "handles_consistent s \<Longrightarrow> run es s = Inr s' \<Longrightarrow> handles_consistent s'"
proof (induction es arbitrary: s)
  case Nil
  then show ?case by simp
next
  case (Cons e es)
  from Cons.prems(2) obtain s1 where s1: "dispatch e s = Inr s1" "run es s1 = Inr s'"
    by (auto split: sum.splits)
  from dispatch_handles_consistent [OF Cons.prems(1) s1(1)] s1(2) show ?case
    using Cons.IH by blast
qed

lemma reachable_handles_consistent:
  "run es TimeularManager_init = Inr s \<Longrightarrow> handles_consistent s"
  by (rule run_handles_consistent [of TimeularManager_init])
     (simp_all add: handles_consistent_def TimeularManager_init_def)

lemma reachable_descriptor_write_never_faults:
  assumes "run es TimeularManager_init = Inr s"
  shows "\<exists>s'. confirmedDescriptorWrite d val s = Inr s'"
proof (cases "m_controller s")
  case None
  with reachable_handles_consistent [OF assms]
  have "\<not> descriptor_isValid (m_notificationDesc s)" by (simp add: handles_consistent_def)
  then have "\<not> (descriptor_isValid d \<and> descriptor_eq d (m_notificationDesc s))"
    by (cases d; cases "m_notificationDesc s") simp_all
  then show ?thesis by (auto simp: confirmedDescriptorWrite_def)
next
  case (Some c)
  then show ?thesis by (auto simp: confirmedDescriptorWrite_def)
qed

section \<open>Decoding a notification\<close>

text \<open>
  C1. A notification on the orientation characteristic whose payload has at least one
  byte is always handled (the slot returns, and the cast always names an enumerator), and
  the orientation stored afterwards has the value of the first byte when that byte is at
  most 8 and the value 0 (Vertical) when the byte is 9 or more.
\<close>

theorem deviceDataChanged_decodes:
  assumes "characteristic_uuid c = zeiOrientationCharacteristic"
  shows "\<exists>s'. deviceDataChanged c (b # rest) s = Inr s' \<and>
           Orientation_value (m_orientation s') = (if unat b \<le> 8 then unat b else 0)"
proof -
  define orientation where "orientation = (if b > 8 then 0 else b)"
  have "orientation \<le> 8" by (simp add: orientation_def not_less)
  then obtain e where e: "static_cast_Orientation orientation = Some e"
    "Orientation_value e = unat orientation"
    using static_cast_Orientation_in_range by blast
  have u: "unat orientation = (if unat b \<le> 8 then unat b else 0)"
    unfolding orientation_def by (rule unat_clamp)
  show ?thesis
  proof (cases "unat orientation = Orientation_value (m_orientation s)")
    case True
    then have "deviceDataChanged c (b # rest) s = Inr (emit [Debug_Orientation b] s)"
      using assms by (simp add: deviceDataChanged_def emit_def Let_def flip: orientation_def)
    with True u show ?thesis by (simp add: emit_def)
  next
    case False
    then have "deviceDataChanged c (b # rest) s =
        Inr (emit [Emit_orientationChanged e] ((emit [Debug_Orientation b] s)\<lparr>m_orientation := e\<rparr>))"
      using assms e by (simp add: deviceDataChanged_def emit_def Let_def flip: orientation_def)
    with e u show ?thesis by (simp add: emit_def)
  qed
qed

theorem deviceDataChanged_decodes_witness:
  "(\<exists>s'. deviceDataChanged orientationCharacteristic [5, 77] TimeularManager_init = Inr s' \<and>
          Orientation_value (m_orientation s') = 5) \<and>
   (\<exists>s'. deviceDataChanged orientationCharacteristic [200] TimeularManager_init = Inr s' \<and>
          Orientation_value (m_orientation s') = 0)"
  using deviceDataChanged_decodes [OF orientationCharacteristic_uuid, of 5 "[77]" TimeularManager_init]
    deviceDataChanged_decodes [OF orientationCharacteristic_uuid, of 200 "[]" TimeularManager_init]
  by simp

text \<open>
  C8. On such a notification the slot emits \<open>orientationChanged\<close> exactly when the
  decoded orientation \<open>e\<close> differs from the stored one: when they are equal the only new
  effect is the debug line and the stored orientation stays as it was; when they differ
  the new value is stored and emitted. Nothing else in the manager changes.
\<close>

theorem deviceDataChanged_emits_iff_changed:
  assumes "characteristic_uuid c = zeiOrientationCharacteristic"
  shows "\<exists>e s'. static_cast_Orientation (if b > 8 then 0 else b) = Some e \<and>
           deviceDataChanged c (b # rest) s = Inr s' \<and>
           m_orientation s' = e \<and>
           new_effects s s' =
             (if e = m_orientation s then [Debug_Orientation b]
              else [Debug_Orientation b, Emit_orientationChanged e]) \<and>
           s'\<lparr>trace := trace s\<rparr> = s\<lparr>m_orientation := e\<rparr>"
proof -
  define orientation where "orientation = (if b > 8 then 0 else b)"
  have "orientation \<le> 8" by (simp add: orientation_def not_less)
  then obtain e where e: "static_cast_Orientation orientation = Some e"
    "Orientation_value e = unat orientation"
    using static_cast_Orientation_in_range by blast
  have same: "unat orientation = Orientation_value (m_orientation s) \<longleftrightarrow> e = m_orientation s"
    using e(2) Orientation_value_inj [of e "m_orientation s"] by simp
  show ?thesis
  proof (cases "e = m_orientation s")
    case True
    then have "deviceDataChanged c (b # rest) s = Inr (emit [Debug_Orientation b] s)"
      using assms same by (simp add: deviceDataChanged_def emit_def Let_def flip: orientation_def)
    with True e(1) show ?thesis
      by (simp add: emit_def new_effects_def flip: orientation_def)
  next
    case False
    then have "deviceDataChanged c (b # rest) s =
        Inr (emit [Emit_orientationChanged e] ((emit [Debug_Orientation b] s)\<lparr>m_orientation := e\<rparr>))"
      using assms e(1) same
      by (simp add: deviceDataChanged_def emit_def Let_def flip: orientation_def)
    with False e(1) show ?thesis
      by (simp add: emit_def new_effects_def flip: orientation_def)
  qed
qed

theorem deviceDataChanged_emits_iff_changed_witness:
  "(\<exists>s'. deviceDataChanged orientationCharacteristic [0] TimeularManager_init = Inr s' \<and>
          m_orientation s' = Vertical \<and> new_effects TimeularManager_init s' = [Debug_Orientation 0]) \<and>
   (\<exists>s'. deviceDataChanged orientationCharacteristic [3] TimeularManager_init = Inr s' \<and>
          m_orientation s' = Face3 \<and>
          new_effects TimeularManager_init s' = [Debug_Orientation 3, Emit_orientationChanged Face3])"
  using deviceDataChanged_emits_iff_changed
          [OF orientationCharacteristic_uuid, of 0 "[]" TimeularManager_init]
    deviceDataChanged_emits_iff_changed
          [OF orientationCharacteristic_uuid, of 3 "[]" TimeularManager_init]
  by (auto simp: static_cast_Orientation_def TimeularManager_init_def)

text \<open>
  C4. A notification on the orientation characteristic with a payload of no bytes is not
  a no-op: the slot has no check of the size, reads the terminating NUL as the orientation
  byte and decodes it to \<open>Vertical\<close>. A streaming manager that has stored \<open>Face3\<close>
  (from the payload 03) and then receives the empty payload stores \<open>Vertical\<close> and emits
  \<open>orientationChanged(Vertical)\<close>.
\<close>

theorem deviceDataChanged_empty_payload_stores_Vertical:
  "run [DeviceDataChanged orientationCharacteristic [3]] connectedManager =
     Inr (connectedManager
            \<lparr>m_orientation := Face3,
             trace := [Debug_Orientation 3, Emit_orientationChanged Face3]\<rparr>) \<and>
   deviceDataChanged orientationCharacteristic []
     (connectedManager
        \<lparr>m_orientation := Face3,
         trace := [Debug_Orientation 3, Emit_orientationChanged Face3]\<rparr>) =
     Inr (connectedManager
            \<lparr>m_orientation := Vertical,
             trace := [Debug_Orientation 3, Emit_orientationChanged Face3,
                       Debug_Orientation 0, Emit_orientationChanged Vertical]\<rparr>)"
  by (simp add: deviceDataChanged_def orientationCharacteristic_def connectedManager_def
        static_cast_Orientation_def emit_def)

section \<open>Starting discovery\<close>

text \<open>
  C2. \<open>startDiscovery\<close> changes nothing at all (no field, no effect) unless the status
  is \<open>Disconneted\<close>; from \<open>Disconneted\<close> it sets the status to \<open>Connecting\<close>, emits
  \<open>statusChanged(Connecting)\<close> and starts the agent with the low-energy method, and
  changes nothing else.
\<close>

theorem startDiscovery_guarded:
  "(m_status s \<noteq> Disconneted \<longrightarrow> startDiscovery s = s) \<and>
   (m_status s = Disconneted \<longrightarrow>
      startDiscovery s =
        s\<lparr>m_status := Connecting,
          trace := trace s @ [Debug ''Starting Discovery'', Emit_statusChanged Connecting,
                               Agent_start_LowEnergyMethod]\<rparr>)"
  by (simp add: startDiscovery_def setStatus_def emit_def)

theorem startDiscovery_guarded_witness:
  "startDiscovery (TimeularManager_init\<lparr>m_status := Connected\<rparr>)
     = TimeularManager_init\<lparr>m_status := Connected\<rparr> \<and>
   startDiscovery (TimeularManager_init\<lparr>m_status := Connecting\<rparr>)
     = TimeularManager_init\<lparr>m_status := Connecting\<rparr> \<and>
   m_status (startDiscovery TimeularManager_init) = Connecting \<and>
   trace (startDiscovery TimeularManager_init) =
     [Debug ''Starting Discovery'', Emit_statusChanged Connecting, Agent_start_LowEnergyMethod]"
  using startDiscovery_guarded [of "TimeularManager_init\<lparr>m_status := Connected\<rparr>"]
    startDiscovery_guarded [of "TimeularManager_init\<lparr>m_status := Connecting\<rparr>"]
    startDiscovery_guarded [of TimeularManager_init]
  by (simp add: TimeularManager_init_def)

section \<open>Admitting a device\<close>

text \<open>
  C9. \<open>deviceDiscovered\<close> changes nothing unless the status is \<open>Connecting\<close>, the
  device has the low-energy bit in its core configurations and its name is exactly
  "Timeular ZEI". For such a device it creates a controller (random address type) only
  when none is held, keeps the one it holds otherwise, and calls \<open>connectToDevice\<close>;
  a second discovery of the same device creates no further controller and only connects
  again.
\<close>

theorem deviceDiscovered_admission:
  "(m_status s \<noteq> Connecting \<or>
    info_coreConfigurations info AND LowEnergyCoreConfiguration = 0 \<or>
    info_name info \<noteq> ''Timeular ZEI'' \<longrightarrow> deviceDiscovered info s = s) \<and>
   (m_status s = Connecting \<and>
    info_coreConfigurations info AND LowEnergyCoreConfiguration \<noteq> 0 \<and>
    info_name info = ''Timeular ZEI'' \<longrightarrow>
      (let s' = deviceDiscovered info s; s'' = deviceDiscovered info s' in
         m_controller s' =
           (case m_controller s of
              None \<Rightarrow> Some \<lparr>ctl_remoteDevice = info, ctl_remoteAddressType = RandomAddress,
                             ctl_errorString = []\<rparr>
            | Some c \<Rightarrow> Some c) \<and>
         new_effects s s' =
           Debug ''Connecting to device'' #
           (if m_controller s = None then [Controller_created info, Controller_signals_connected]
            else []) @
           [Controller_connectToDevice] \<and>
         s'\<lparr>trace := trace s, m_controller := m_controller s\<rparr> = s \<and>
         m_controller s'' = m_controller s' \<and>
         new_effects s' s'' = [Debug ''Connecting to device'', Controller_connectToDevice]))"
  by (auto simp: deviceDiscovered_def Let_def emit_def new_effects_def createCentral_def
           split: option.splits)

theorem deviceDiscovered_admission_witness:
  "deviceDiscovered zeiDevice TimeularManager_init = TimeularManager_init \<and>
   deviceDiscovered otherDice (startDiscovery TimeularManager_init)
     = startDiscovery TimeularManager_init \<and>
   deviceDiscovered (zeiDevice\<lparr>info_coreConfigurations := 2\<rparr>) (startDiscovery TimeularManager_init)
     = startDiscovery TimeularManager_init \<and>
   m_controller (deviceDiscovered zeiDevice (startDiscovery TimeularManager_init)) =
     Some \<lparr>ctl_remoteDevice = zeiDevice, ctl_remoteAddressType = RandomAddress,
           ctl_errorString = []\<rparr> \<and>
   new_effects (startDiscovery TimeularManager_init)
     (deviceDiscovered zeiDevice (startDiscovery TimeularManager_init)) =
     [Debug ''Connecting to device'', Controller_created zeiDevice, Controller_signals_connected,
      Controller_connectToDevice] \<and>
   new_effects (deviceDiscovered zeiDevice (startDiscovery TimeularManager_init))
     (deviceDiscovered zeiDevice (deviceDiscovered zeiDevice (startDiscovery TimeularManager_init))) =
     [Debug ''Connecting to device'', Controller_connectToDevice]"
proof -
  have st: "m_status (startDiscovery TimeularManager_init) = Connecting"
    "m_controller (startDiscovery TimeularManager_init) = None"
    "m_status TimeularManager_init \<noteq> Connecting"
    by (simp_all add: startDiscovery_def setStatus_def emit_def TimeularManager_init_def)
  have dev: "info_name zeiDevice = ''Timeular ZEI''"
    "info_coreConfigurations zeiDevice AND LowEnergyCoreConfiguration \<noteq> 0"
    "info_name otherDice \<noteq> ''Timeular ZEI''"
    "info_coreConfigurations (zeiDevice\<lparr>info_coreConfigurations := 2\<rparr>)
       AND LowEnergyCoreConfiguration = 0"
    by (simp_all add: zeiDevice_def otherDice_def LowEnergyCoreConfiguration_def)
  show ?thesis
    using deviceDiscovered_admission [of TimeularManager_init zeiDevice]
      deviceDiscovered_admission [of "startDiscovery TimeularManager_init" otherDice]
      deviceDiscovered_admission [of "startDiscovery TimeularManager_init"
                                     "zeiDevice\<lparr>info_coreConfigurations := 2\<rparr>"]
      deviceDiscovered_admission [of "startDiscovery TimeularManager_init" zeiDevice]
      st dev
    by (simp add: Let_def)
qed

section \<open>Service discovery\<close>

text \<open>
  C5. When \<open>m_serviceDiscovered\<close> is unset, \<open>serviceScanDone\<close> returns with no service
  held whatever the controller would have answered: a held service is deleted, no service
  object is asked for, \<open>discoverDetails\<close> is not called, "Service not found" is
  logged, and the status (like every other member) is as before.
\<close>

theorem serviceScanDone_without_flag:
  assumes "\<not> m_serviceDiscovered s"
  shows "\<exists>s'. serviceScanDone created s = Inr s' \<and>
           m_service s' = None \<and>
           m_status s' = m_status s \<and>
           new_effects s s' =
             (if m_service s = None then [] else [Service_deleted]) @ [Debug ''Service not found''] \<and>
           s'\<lparr>trace := trace s\<rparr> = s\<lparr>m_service := None\<rparr>"
  using assms
  by (auto simp: serviceScanDone_def Let_def delete_service_def emit_def new_effects_def
           split: option.splits)

theorem serviceScanDone_without_flag_witness:
  "\<exists>s'. serviceScanDone (Some orientationService)
           (TimeularManager_init\<lparr>m_status := Connecting\<rparr>) = Inr s' \<and>
         m_service s' = None \<and> m_status s' = Connecting \<and>
         trace s' = [Debug ''Service not found'']"
  using serviceScanDone_without_flag
          [of "TimeularManager_init\<lparr>m_status := Connecting\<rparr>" "Some orientationService"]
  by (auto simp: new_effects_def TimeularManager_init_def)

text \<open>
  C3. With a service held, \<open>serviceStateChanged(ServiceDiscovered)\<close> returns and: if the
  service has no orientation characteristic, the status is \<open>Disconneted\<close>; if it has
  the characteristic and that has the client characteristic configuration descriptor, the
  status is \<open>Connected\<close> and the bytes 01 00 are written to that descriptor; if the
  descriptor is missing, the status is \<open>Disconneted\<close> and nothing is written.
\<close>

theorem serviceStateChanged_discovered:
  assumes "m_service s = Some svc"
  shows "\<exists>s'. serviceStateChanged ServiceDiscovered s = Inr s' \<and>
    (let orientationChar = service_characteristic svc zeiOrientationCharacteristic;
         desc = characteristic_descriptor orientationChar notificationDescriptorUuid
     in if \<not> characteristic_isValid orientationChar then
          m_status s' = Disconneted \<and>
          new_effects s s' =
            Debug ''Orientation data not found'' #
            (if m_status s = Disconneted then [] else [Emit_statusChanged Disconneted])
        else if descriptor_isValid desc then
          m_status s' = Connected \<and> m_notificationDesc s' = desc \<and>
          new_effects s s' =
            Debug ''Device Connected'' #
            (if m_status s = Connected then [] else [Emit_statusChanged Connected]) @
            [Service_writeDescriptor desc [1, 0]]
        else
          m_status s' = Disconneted \<and>
          new_effects s s' =
            (if m_status s = Disconneted then [] else [Emit_statusChanged Disconneted]))"
  using assms
  by (simp add: serviceStateChanged_def Let_def setStatus_def emit_def new_effects_def fromHex_0100)

theorem serviceStateChanged_discovered_witness:
  "(\<exists>s'. serviceStateChanged ServiceDiscovered
            (TimeularManager_init\<lparr>m_status := Connecting, m_service := Some orientationService\<rparr>) = Inr s' \<and>
          m_status s' = Connected \<and>
          trace s' =
            [Debug ''Device Connected'', Emit_statusChanged Connected,
             Service_writeDescriptor (Descriptor 13 14 notificationDescriptorUuid) [1, 0]]) \<and>
   (\<exists>s'. serviceStateChanged ServiceDiscovered
            (TimeularManager_init\<lparr>m_status := Connecting,
               m_service := Some \<lparr>service_uuid = zeiOrientationService,
                                   service_characteristics = []\<rparr>\<rparr>) = Inr s' \<and>
          m_status s' = Disconneted) \<and>
   (\<exists>s'. serviceStateChanged ServiceDiscovered
            (TimeularManager_init\<lparr>m_status := Connecting,
               m_service := Some \<lparr>service_uuid = zeiOrientationService,
                                   service_characteristics =
                                     [Characteristic 13 zeiOrientationCharacteristic []]\<rparr>\<rparr>) = Inr s' \<and>
          m_status s' = Disconneted)"
  using serviceStateChanged_discovered
          [of "TimeularManager_init\<lparr>m_status := Connecting, m_service := Some orientationService\<rparr>"
              orientationService]
    serviceStateChanged_discovered
          [of "TimeularManager_init\<lparr>m_status := Connecting,
                 m_service := Some \<lparr>service_uuid = zeiOrientationService,
                                     service_characteristics = []\<rparr>\<rparr>"
              "\<lparr>service_uuid = zeiOrientationService, service_characteristics = []\<rparr>"]
    serviceStateChanged_discovered
          [of "TimeularManager_init\<lparr>m_status := Connecting,
                 m_service := Some \<lparr>service_uuid = zeiOrientationService,
                                     service_characteristics =
                                       [Characteristic 13 zeiOrientationCharacteristic []]\<rparr>\<rparr>"
              "\<lparr>service_uuid = zeiOrientationService,
                service_characteristics = [Characteristic 13 zeiOrientationCharacteristic []]\<rparr>"]
  by (auto simp: Let_def new_effects_def TimeularManager_init_def orientationService_def
        orientationCharacteristic_def service_characteristic_def)

text \<open>
  C10. \<open>m_serviceDiscovered\<close> is false in a new manager, is set by a report of the
  orientation service, and stays set along every run of events that returns, whatever the
  events are (disconnects, scans that finish, new discovery cycles). So at any later
  \<open>serviceScanDone\<close> with a controller held, the service object is asked for and kept,
  as if the service had just been reported.
\<close>

theorem m_serviceDiscovered_is_sticky:
  "\<not> m_serviceDiscovered TimeularManager_init \<and>
   m_serviceDiscovered (addLowEnergyService zeiOrientationService s) \<and>
   (\<forall>es s'. m_serviceDiscovered s \<and> run es s = Inr s' \<longrightarrow> m_serviceDiscovered s') \<and>
   (\<forall>es s' c created.
      m_serviceDiscovered s \<and> run es s = Inr s' \<and> m_controller s' = Some c \<longrightarrow>
      (\<exists>s''. serviceScanDone created s' = Inr s'' \<and> m_service s'' = created \<and>
         new_effects s' s'' =
           (if m_service s' = None then [] else [Service_deleted]) @
           Controller_createServiceObject zeiOrientationService #
           (if created = None then [Debug ''Service not found'']
            else [Service_signals_connected, Service_discoverDetails])))"
proof (intro conjI allI impI)
  show "\<not> m_serviceDiscovered TimeularManager_init"
    by (simp add: TimeularManager_init_def)
  show "m_serviceDiscovered (addLowEnergyService zeiOrientationService s)"
    by (simp add: addLowEnergyService_def)
next
  fix es s'
  assume "m_serviceDiscovered s \<and> run es s = Inr s'"
  then show "m_serviceDiscovered s'" using run_keeps_flag by blast
next
  fix es s' c created
  assume a: "m_serviceDiscovered s \<and> run es s = Inr s' \<and> m_controller s' = Some c"
  then have "m_serviceDiscovered s'" using run_keeps_flag by blast
  with a show "\<exists>s''. serviceScanDone created s' = Inr s'' \<and> m_service s'' = created \<and>
         new_effects s' s'' =
           (if m_service s' = None then [] else [Service_deleted]) @
           Controller_createServiceObject zeiOrientationService #
           (if created = None then [Debug ''Service not found'']
            else [Service_signals_connected, Service_discoverDetails])"
    using serviceScanDone_with_flag by blast
qed

theorem m_serviceDiscovered_is_sticky_witness:
  "\<exists>s1 s2 s3.
     run [StartDiscovery, DeviceDiscovered zeiDevice, DeviceConnected]
       TimeularManager_init = Inr s1 \<and>
     \<not> m_serviceDiscovered s1 \<and>
     run [ServiceScanDone (Some orientationService), ServiceStateChanged ServiceDiscovered,
          DeviceDisconnected, StartDiscovery, DeviceDiscovered zeiDevice, DeviceConnected]
       (addLowEnergyService zeiOrientationService s1) = Inr s2 \<and>
     m_serviceDiscovered s2 \<and>
     serviceScanDone (Some orientationService) s2 = Inr s3 \<and>
     m_service s3 = Some orientationService \<and>
     new_effects s2 s3 =
       [Controller_createServiceObject zeiOrientationService, Service_signals_connected,
        Service_discoverDetails]"
proof -
  have "\<exists>s1 s2.
     run [StartDiscovery, DeviceDiscovered zeiDevice, DeviceConnected]
       TimeularManager_init = Inr s1 \<and>
     \<not> m_serviceDiscovered s1 \<and>
     run [ServiceScanDone (Some orientationService), ServiceStateChanged ServiceDiscovered,
          DeviceDisconnected, StartDiscovery, DeviceDiscovered zeiDevice, DeviceConnected]
       (addLowEnergyService zeiOrientationService s1) = Inr s2 \<and>
     m_controller s2 \<noteq> None \<and> m_service s2 = None"
    by (simp add: TimeularManager_init_def startDiscovery_def setStatus_def emit_def
          deviceDiscovered_def zeiDevice_def LowEnergyCoreConfiguration_def createCentral_def
          deviceConnected_def addLowEnergyService_def serviceScanDone_def delete_service_def
          orientationService_def orientationCharacteristic_def serviceStateChanged_def
          service_characteristic_def zeiOrientationCharacteristic_def
          notificationDescriptorUuid_def deviceDisconnected_def Let_def)
  then obtain s1 s2 c where
    r1: "run [StartDiscovery, DeviceDiscovered zeiDevice, DeviceConnected]
           TimeularManager_init = Inr s1"
    and f1: "\<not> m_serviceDiscovered s1"
    and r2: "run [ServiceScanDone (Some orientationService), ServiceStateChanged ServiceDiscovered,
               DeviceDisconnected, StartDiscovery, DeviceDiscovered zeiDevice, DeviceConnected]
              (addLowEnergyService zeiOrientationService s1) = Inr s2"
    and c2: "m_controller s2 = Some c" and v2: "m_service s2 = None"
    by auto
  have flag_set: "m_serviceDiscovered (addLowEnergyService zeiOrientationService s1)"
    using m_serviceDiscovered_is_sticky [of s1] by blast
  have f2: "m_serviceDiscovered s2"
    using m_serviceDiscovered_is_sticky [of "addLowEnergyService zeiOrientationService s1"]
      flag_set r2 by blast
  obtain s3 where "serviceScanDone (Some orientationService) s2 = Inr s3"
    "m_service s3 = Some orientationService"
    "new_effects s2 s3 =
       (if m_service s2 = None then [] else [Service_deleted]) @
       Controller_createServiceObject zeiOrientationService #
       (if Some orientationService = None then [Debug ''Service not found'']
        else [Service_signals_connected, Service_discoverDetails])"
    using m_serviceDiscovered_is_sticky [of "addLowEnergyService zeiOrientationService s1"]
      flag_set r2 c2 by blast
  with r1 f1 r2 f2 v2 show ?thesis by auto
qed

section \<open>Disconnecting\<close>

text \<open>
  C6. Whatever the manager was before, after \<open>deviceDisconnected\<close> the status is
  \<open>Disconneted\<close> and no service is held (a held one is deleted); the slot emits the
  status change when there is one and logs, and starts neither a scan nor a connection.
\<close>

theorem deviceDisconnected_resets:
  "m_status (deviceDisconnected s) = Disconneted \<and>
   m_service (deviceDisconnected s) = None \<and>
   new_effects s (deviceDisconnected s) =
     (if m_status s = Disconneted then [] else [Emit_statusChanged Disconneted]) @
     (if m_service s = None then [] else [Service_deleted]) @
     [Debug ''Device Disconneted''] \<and>
   Agent_start_LowEnergyMethod \<notin> set (new_effects s (deviceDisconnected s)) \<and>
   Controller_connectToDevice \<notin> set (new_effects s (deviceDisconnected s)) \<and>
   (deviceDisconnected s)\<lparr>trace := trace s\<rparr> = s\<lparr>m_status := Disconneted, m_service := None\<rparr>"
  by (auto simp: deviceDisconnected_def setStatus_def delete_service_def emit_def new_effects_def
           split: option.splits)

theorem deviceDisconnected_resets_witness:
  "m_status (deviceDisconnected connectedManager) = Disconneted \<and>
   m_service (deviceDisconnected connectedManager) = None \<and>
   trace (deviceDisconnected connectedManager) =
     [Emit_statusChanged Disconneted, Service_deleted, Debug ''Device Disconneted''] \<and>
   m_status (deviceDisconnected TimeularManager_init) = Disconneted \<and>
   trace (deviceDisconnected TimeularManager_init) = [Debug ''Device Disconneted'']"
  using deviceDisconnected_resets [of connectedManager]
    deviceDisconnected_resets [of TimeularManager_init]
  by (simp add: new_effects_def connectedManager_def TimeularManager_init_def)

text \<open>
  C7. With a controller held, the confirmation of a write of the bytes 00 00 to the
  (valid) descriptor stored in \<open>m_notificationDesc\<close> calls \<open>disconnectFromDevice\<close>
  and deletes and nulls the service; any other value, any other descriptor, or an invalid
  descriptor leaves the manager exactly as it was.
\<close>

theorem confirmedDescriptorWrite_disconnect_intent:
  assumes "m_controller s = Some ctl"
  shows "(descriptor_isValid d \<and> descriptor_eq d (m_notificationDesc s) \<and> val = [0, 0] \<longrightarrow>
            (\<exists>s'. confirmedDescriptorWrite d val s = Inr s' \<and>
                   m_service s' = None \<and>
                   new_effects s s' =
                     Controller_disconnectFromDevice #
                     (if m_service s = None then [] else [Service_deleted]) \<and>
                   s'\<lparr>trace := trace s\<rparr> = s\<lparr>m_service := None\<rparr>)) \<and>
         (\<not> descriptor_isValid d \<or> val \<noteq> [0, 0] \<or> \<not> descriptor_eq d (m_notificationDesc s) \<longrightarrow>
            confirmedDescriptorWrite d val s = Inr s)"
  using assms
  by (auto simp: confirmedDescriptorWrite_def fromHex_0000 delete_service_def emit_def
                 new_effects_def split: option.splits)

theorem confirmedDescriptorWrite_disconnect_intent_witness:
  "(\<exists>s'. confirmedDescriptorWrite (Descriptor 13 14 notificationDescriptorUuid) [0, 0]
            connectedManager = Inr s' \<and>
          m_service s' = None \<and>
          trace s' = [Controller_disconnectFromDevice, Service_deleted]) \<and>
   confirmedDescriptorWrite (Descriptor 13 14 notificationDescriptorUuid) [1, 0] connectedManager
     = Inr connectedManager \<and>
   confirmedDescriptorWrite (Descriptor 13 15 ''00002901-0000-1000-8000-00805f9b34fb'') [0, 0]
     connectedManager = Inr connectedManager"
  using confirmedDescriptorWrite_disconnect_intent
          [of connectedManager _ "Descriptor 13 14 notificationDescriptorUuid" "[0, 0]"]
    confirmedDescriptorWrite_disconnect_intent
          [of connectedManager _ "Descriptor 13 14 notificationDescriptorUuid" "[1, 0]"]
    confirmedDescriptorWrite_disconnect_intent
          [of connectedManager _ "Descriptor 13 15 ''00002901-0000-1000-8000-00805f9b34fb''" "[0, 0]"]
  by (auto simp: new_effects_def connectedManager_def)

end
